theory Spec2Isabelle
  imports Main "HOL-Library.AList"
begin

section \<open>Agents of textarena/agents/basic\_agents.py\<close>

text \<open>
  The module defines eight agent classes. An agent is called with an observation and
  returns an action (a string). Everything the code does beyond returning a value is
  explicit here: an exception is the left summand of a result, and every outbound
  call, every \<^verbatim>\<open>time.sleep\<close>, every \<^verbatim>\<open>print\<close> and every \<^verbatim>\<open>input\<close> appends an event
  to the world's log. The standard output takes every string: \<^verbatim>\<open>print\<close> does not raise.
\<close>

subsection \<open>Python values, exceptions, strings\<close>

text \<open>
  The exceptions are the instances of \<^verbatim>\<open>Exception\<close>, the ones an
  \<^verbatim>\<open>except Exception\<close> clause catches: a class and the text \<^verbatim>\<open>str(e)\<close>.
  \<open>ProviderError\<close> stands for the classes of the providers' own libraries.
\<close>

datatype exc_class =
  ValueError | ImportError | TypeError | IndexError | AttributeError | EOFError
  | OverflowError | ProviderError

datatype exn = Exn exc_class string

fun exc_str :: "exn \<Rightarrow> string" where
  "exc_str (Exn c msg) = msg"

fun exc_cls :: "exn \<Rightarrow> exc_class" where
  "exc_cls (Exn c msg) = c"

text \<open>
  The values an observation or a keyword argument can be. A float is kept as its
  \<^verbatim>\<open>repr\<close>, which is how the source writes it (\<^verbatim>\<open>0.9\<close>) and what \<^verbatim>\<open>str\<close> gives.
  A \<open>string\<close> is a Python \<^verbatim>\<open>str\<close> of code points below 256.
\<close>

datatype pyval = PyStr string | PyInt int | PyBool bool | PyNone | PyFloat string

fun isinstance_str :: "pyval \<Rightarrow> bool" where
  "isinstance_str (PyStr s) = True"
| "isinstance_str v = False"

fun type_name :: "pyval \<Rightarrow> string" where
  "type_name (PyStr s) = ''str''"
| "type_name (PyInt i) = ''int''"
| "type_name (PyBool b) = ''bool''"
| "type_name PyNone = ''NoneType''"
| "type_name (PyFloat r) = ''float''"

fun digit_char :: "nat \<Rightarrow> char" where
  "digit_char n = char_of (48 + n)"

fun str_nat :: "nat \<Rightarrow> string" where
  "str_nat n = (if n < 10 then [digit_char n] else str_nat (n div 10) @ [digit_char (n mod 10)])"

declare str_nat.simps [simp del]

definition str_int :: "int \<Rightarrow> string" where
  "str_int i = (if i < 0 then CHR ''-'' # str_nat (nat (- i)) else str_nat (nat i))"

text \<open>
  \<^verbatim>\<open>str\<close> of an \<^verbatim>\<open>int\<close>, also inside an f-string: CPython refuses to convert an
  integer of more decimal digits than \<^verbatim>\<open>sys.get_int_max_str_digits()\<close> (4300 unless
  it was set; 0 means no limit) and raises a \<^verbatim>\<open>ValueError\<close>.
\<close>

definition int_str_ok :: "nat \<Rightarrow> int \<Rightarrow> bool" where
  "int_str_ok limit i = (limit = 0 \<or> \<bar>i\<bar> < 10 ^ limit)"

definition int_str :: "nat \<Rightarrow> int \<Rightarrow> exn + string" where
  "int_str limit i =
     (if int_str_ok limit i then Inr (str_int i)
      else Inl (Exn ValueError
             (''Exceeds the limit ('' @ str_nat limit
                @ '' digits) for integer string conversion; use sys.set_int_max_str_digits() to increase the limit'')))"

text \<open>\<^verbatim>\<open>f"{x}"\<close> of a value, under the given limit of digits.\<close>

fun py_str :: "nat \<Rightarrow> pyval \<Rightarrow> exn + string" where
  "py_str limit (PyStr s) = Inr s"
| "py_str limit (PyInt i) = int_str limit i"
| "py_str limit (PyBool b) = Inr (if b then ''True'' else ''False'')"
| "py_str limit PyNone = Inr ''None''"
| "py_str limit (PyFloat r) = Inr r"

text \<open>\<^verbatim>\<open>f"{x}"\<close> of an \<^verbatim>\<open>Optional[str]\<close>.\<close>

fun opt_str :: "string option \<Rightarrow> string" where
  "opt_str None = ''None''"
| "opt_str (Some s) = s"

fun opt_val :: "string option \<Rightarrow> pyval" where
  "opt_val None = PyNone"
| "opt_val (Some s) = PyStr s"

text \<open>
  \<^verbatim>\<open>str.strip()\<close> without argument removes the leading and the trailing whitespace:
  the code points for which \<^verbatim>\<open>str.isspace\<close> holds, below 256 these are 9 to 13,
  28 to 32, 133 and 160.
\<close>

definition isspace :: "char \<Rightarrow> bool" where
  "isspace c = (let n = (of_char c :: nat)
                in (9 \<le> n \<and> n \<le> 13) \<or> (28 \<le> n \<and> n \<le> 32) \<or> n = 133 \<or> n = 160)"

definition strip :: "string \<Rightarrow> string" where
  "strip s = rev (dropWhile isspace (rev (dropWhile isspace s)))"

definition STANDARD_GAME_PROMPT :: string where
  "STANDARD_GAME_PROMPT = ''You are a competitive game player. Make sure you read the game instructions carefully, and always follow the required format.''"

subsection \<open>Handles, requests, responses\<close>

text \<open>
  A handle is an object of a provider's library, identified by the arguments of the
  constructor call that made it.
\<close>

datatype handle =
  OpenAI_client "string option" string
    \<comment> \<open>\<^verbatim>\<open>OpenAI(base_url=..., api_key=...)\<close>\<close>
  | GenerativeModel string "(string \<times> pyval) list"
    \<comment> \<open>\<^verbatim>\<open>genai.GenerativeModel(model_name=..., generation_config=...)\<close>\<close>
  | Cerebras_client "string option"
    \<comment> \<open>\<^verbatim>\<open>Cerebras(api_key=os.getenv(...))\<close>\<close>
  | Bedrock_client string
    \<comment> \<open>\<^verbatim>\<open>boto3.client("bedrock-runtime", region_name=...)\<close>\<close>
  | Anthropic_client
    \<comment> \<open>\<^verbatim>\<open>anthropic.Anthropic()\<close>\<close>
  | AutoTokenizer string
    \<comment> \<open>\<^verbatim>\<open>AutoTokenizer.from_pretrained(model_name)\<close>\<close>
  | AutoModelForCausalLM string bool string "(string \<times> pyval) list"
    \<comment> \<open>\<^verbatim>\<open>AutoModelForCausalLM.from_pretrained(model_name, load_in_8bit=, device_map=, **hf_kwargs)\<close>\<close>
  | HF_pipeline int handle handle
    \<comment> \<open>\<^verbatim>\<open>pipeline('text-generation', max_new_tokens=, model=, tokenizer=)\<close>\<close>

text \<open>
  A request is one call of a provider's method as the call site writes it: the
  receiver and the arguments. Messages are (role, content) pairs.
\<close>

datatype request =
  ChatCompletionsCreate handle string "(string \<times> pyval) list" "(string \<times> pyval) list"
    \<comment> \<open>\<^verbatim>\<open>client.chat.completions.create(model=, messages=, **keywords)\<close>\<close>
  | GenerateContent handle string
    \<comment> \<open>\<^verbatim>\<open>model.generate_content(prompt)\<close>\<close>
  | TextGeneration handle string
    \<comment> \<open>\<^verbatim>\<open>pipeline(prompt, num_return_sequences=1, return_full_text=False)\<close>\<close>
  | Converse handle string string "string option" "(string \<times> pyval) list"
    \<comment> \<open>\<^verbatim>\<open>client.converse(modelId=, messages=, system=, inferenceConfig=)\<close>\<close>
  | MessagesCreate handle string int pyval "string option" string
    \<comment> \<open>\<^verbatim>\<open>client.messages.create(model=, max_tokens=, temperature=, system=, messages=)\<close>\<close>

text \<open>
  A response is given by its generated text fields in order
  (\<^verbatim>\<open>choices[i].message.content\<close>, \<^verbatim>\<open>content[i].text\<close>,
  \<^verbatim>\<open>[i]['generated_text']\<close>), where a field can be null, and by what the library's
  accessor \<^verbatim>\<open>response.text\<close> does, which GeminiAgent reads: it returns the text or
  raises the library's exception. A call of the provider either raises or returns a
  response.
\<close>

datatype response = Response "string option list" "exn + string"

datatype outcome = Raises exn | Returns response

subsection \<open>The agent classes\<close>

record OpenRouterAgent =
  model_name :: string
  verbose :: bool
  system_prompt :: "string option"
  kwargs :: "(string \<times> pyval) list"
  client :: handle

record GeminiAgent =
  model_name :: string
  system_prompt :: "string option"
  verbose :: bool
  generation_config :: "(string \<times> pyval) list"
  model :: handle

record OpenAIAgent =
  model_name :: string
  system_prompt :: "string option"
  verbose :: bool
  kwargs :: "(string \<times> pyval) list"
  client :: handle

record HFLocalAgent =
  tokenizer :: handle
  model :: handle
  system_prompt :: string
  pipeline :: handle

record CerebrasAgent =
  model_name :: string
  client :: handle
  system_prompt :: string

record AWSBedrockAgent =
  model_id :: string
  region_name :: string
  system_prompt :: "string option"
  verbose :: bool
  kwargs :: "(string \<times> pyval) list"
  client :: handle

record AnthropicAgent =
  model_name :: string
  system_prompt :: "string option"
  max_tokens :: int
  temperature :: pyval
  verbose :: bool
  client :: handle

datatype agent =
  Human
  | OpenRouter OpenRouterAgent
  | Gemini GeminiAgent
  | OpenAI OpenAIAgent
  | HFLocal HFLocalAgent
  | Cerebras CerebrasAgent
  | AWSBedrock AWSBedrockAgent
  | Anthropic AnthropicAgent

subsection \<open>The world and its effects\<close>

datatype event =
  Call request
  | Sleep int
  | Print string
  | Input string
  | New handle
  | Configure string

text \<open>
  The world outside the agent: \<open>provider w n req\<close> is what the \<open>n\<close>-th outbound call
  (counted from 0) does when it is the request \<open>req\<close>, from the moment the library's
  function is called with the arguments (a function that rejects an argument is a
  provider that raises); \<open>sdk_init w h\<close> is the exception the library's constructor
  raises for the handle \<open>h\<close>, if any; \<open>importable\<close> tells which packages are installed;
  \<open>environ\<close> is \<^verbatim>\<open>os.environ\<close>; \<open>int_max_str_digits\<close> is
  \<^verbatim>\<open>sys.get_int_max_str_digits()\<close>; \<open>create_str\<close> is how Python names the library's
  function \<^verbatim>\<open>client.chat.completions.create\<close> in the message of a \<^verbatim>\<open>TypeError\<close>
  (its qualified name followed by \<^verbatim>\<open>()\<close>); \<open>stdin_tty\<close> tells whether the input and the
  output are a terminal; \<open>stdin\<close> holds the lines the operator will type; \<open>objects\<close> is
  the store of agent objects; \<open>events\<close> is the log of effects so far.
\<close>

record world =
  provider :: "nat \<Rightarrow> request \<Rightarrow> outcome"
  sdk_init :: "handle \<Rightarrow> exn option"
  importable :: "string \<Rightarrow> bool"
  environ :: "string \<Rightarrow> string option"
  int_max_str_digits :: nat
  create_str :: string
  stdin_tty :: bool
  stdin :: "string list"
  objects :: "nat \<Rightarrow> agent option"
  events :: "event list"

type_synonym 'a io = "world \<Rightarrow> (exn + 'a) \<times> world"

fun is_Call :: "event \<Rightarrow> bool" where
  "is_Call (Call r) = True"
| "is_Call e = False"

fun is_Print :: "event \<Rightarrow> bool" where
  "is_Print (Print s) = True"
| "is_Print e = False"

definition invocations :: "world \<Rightarrow> nat" where
  "invocations w = length (filter is_Call (events w))"

definition emit :: "event \<Rightarrow> world \<Rightarrow> world" where
  "emit e w = w\<lparr>events := events w @ [e]\<rparr>"

definition py_print :: "string \<Rightarrow> world \<Rightarrow> world" where
  "py_print s w = emit (Print s) w"

text \<open>
  \<^verbatim>\<open>time.sleep(d)\<close> for an \<^verbatim>\<open>int\<close>: CPython (3.11) first converts the seconds to a
  64-bit number of nanoseconds, which overflows beyond \<open>sleep_max\<close> seconds, and then
  refuses a negative length.
\<close>

definition sleep_max :: int where
  "sleep_max = 9223372036"

definition time_sleep :: "int \<Rightarrow> unit io" where
  "time_sleep d w =
     (if d < - sleep_max \<or> sleep_max < d
      then (Inl (Exn OverflowError ''timestamp too large to convert to C _PyTime_t''), w)
      else if d < 0 then (Inl (Exn ValueError ''sleep length must be non-negative''), w)
      else (Inr (), emit (Sleep d) w))"

definition invoke :: "request \<Rightarrow> response io" where
  "invoke req w =
     (case provider w (invocations w) req of
        Raises e \<Rightarrow> (Inl e, emit (Call req) w)
      | Returns r \<Rightarrow> (Inr r, emit (Call req) w))"

text \<open>
  \<^verbatim>\<open>input(prompt)\<close>: shows the prompt and reads a line, \<^verbatim>\<open>EOFError\<close> at end of input.
  On a terminal the prompt goes to the terminal's line reader, which CPython gives no
  prompt with a null character.
\<close>

definition py_input :: "string \<Rightarrow> string io" where
  "py_input prompt w =
     (if stdin_tty w \<and> CHR 0x00 \<in> set prompt
      then (Inl (Exn ValueError ''input: prompt string cannot contain null characters''), w)
      else case stdin w of
             [] \<Rightarrow> (Inl (Exn EOFError ''EOF when reading a line''), emit (Input prompt) w)
           | l # ls \<Rightarrow> (Inr l, emit (Input prompt) (w\<lparr>stdin := ls\<rparr>)))"

text \<open>The first text field of a response, stripped: \<^verbatim>\<open>xs[0].text.strip()\<close>.\<close>

fun first_text_strip :: "response \<Rightarrow> exn + string" where
  "first_text_strip (Response [] t) = Inl (Exn IndexError ''list index out of range'')"
| "first_text_strip (Response (None # rest) t) =
     Inl (Exn AttributeError
       (CHR 0x27 # ''NoneType' object has no attribute 'strip'' @ [CHR 0x27]))"
| "first_text_strip (Response (Some s # rest) t) = Inr (strip s)"

subsection \<open>HumanAgent\<close>

text \<open>
  The \<^verbatim>\<open>print\<close> comes first; then the prompt is formatted, which can raise, and only
  then \<^verbatim>\<open>input\<close> is called.
\<close>

definition HumanAgent_call :: "pyval \<Rightarrow> string io" where
  "HumanAgent_call observation w =
     (let w1 = py_print ''\<newline>\<newline>+++ +++ +++'' w
      in case py_str (int_max_str_digits w1) observation of
           Inl e \<Rightarrow> (Inl e, w1)
         | Inr text \<Rightarrow>
             py_input (''Current observations: '' @ text @ ''\<newline>Please enter the action: '') w1)"

subsection \<open>The retry loop\<close>

text \<open>
  The four methods \<^verbatim>\<open>_retry_request\<close> (OpenRouterAgent, GeminiAgent, OpenAIAgent,
  AnthropicAgent) have the same body, but for the two lines that print the response when
  \<^verbatim>\<open>self.verbose\<close> is set, which GeminiAgent's loop does not have. \<open>retry_attempts\<close> is
  that body from the \<^verbatim>\<open>for\<close> on: it runs over the remaining values of \<^verbatim>\<open>attempt\<close>,
  with \<^verbatim>\<open>last_exception\<close> (\<open>None\<close> at first). The parameters are the class's
  \<^verbatim>\<open>_make_request\<close> and whether the loop prints the response. The f-string with
  \<^verbatim>\<open>{attempt}\<close> or a \<^verbatim>\<open>time.sleep\<close> that raises does so inside the handler, so it
  leaves the loop. After the loop, \<^verbatim>\<open>raise last_exception\<close> with \<^verbatim>\<open>None\<close> is a
  \<^verbatim>\<open>TypeError\<close>.
\<close>

fun retry_attempts ::
  "(string \<Rightarrow> string io) \<Rightarrow> bool \<Rightarrow> string \<Rightarrow> int \<Rightarrow> int \<Rightarrow> int list \<Rightarrow> exn option \<Rightarrow> string io"
where
  "retry_attempts make_request prints observation retries delay [] last_exception w =
     (case last_exception of
        None \<Rightarrow> (Inl (Exn TypeError ''exceptions must derive from BaseException''), w)
      | Some e \<Rightarrow> (Inl e, w))"
| "retry_attempts make_request prints observation retries delay (attempt # rest) last_exception w =
     (case make_request observation w of
        (Inr response, w1) \<Rightarrow>
          (Inr response,
           if prints
           then py_print (''\<newline>Observation: '' @ observation @ ''\<newline>Response: '' @ response) w1
           else w1)
      | (Inl e, w1) \<Rightarrow>
          (case int_str (int_max_str_digits w1) attempt of
             Inl e' \<Rightarrow> (Inl e', w1)
           | Inr number \<Rightarrow>
               (let w2 = py_print (''Attempt '' @ number @ '' failed with error: '' @ exc_str e) w1
                in if attempt < retries
                   then (case time_sleep delay w2 of
                           (Inl e', w3) \<Rightarrow> (Inl e', w3)
                         | (Inr u, w3) \<Rightarrow>
                             retry_attempts make_request prints observation retries delay rest (Some e) w3)
                   else retry_attempts make_request prints observation retries delay rest (Some e) w2)))"

subsection \<open>Keyword arguments given twice\<close>

text \<open>
  \<^verbatim>\<open>create(model=..., messages=..., n=1, stop=None, **self.kwargs)\<close>: when a key of
  \<^verbatim>\<open>kwargs\<close> is one of the four keywords the call site writes, Python raises a
  \<^verbatim>\<open>TypeError\<close> for the first such key of \<^verbatim>\<open>kwargs\<close> while it builds the arguments,
  and the function is not entered.
\<close>

definition keyword_clash :: "(string \<times> pyval) list \<Rightarrow> string option" where
  "keyword_clash kw =
     find (\<lambda>k. k \<in> set [''model'', ''messages'', ''n'', ''stop'']) (map fst kw)"

definition multiple_values :: "string \<Rightarrow> string \<Rightarrow> exn" where
  "multiple_values func k =
     Exn TypeError (func @ '' got multiple values for keyword argument '' @ [CHR 0x27] @ k @ [CHR 0x27])"

subsection \<open>OpenRouterAgent\<close>

text \<open>
  The arguments of the call: the keyword that is given twice, or else the request.
\<close>

definition OpenRouterAgent_request :: "OpenRouterAgent \<Rightarrow> string \<Rightarrow> string + request" where
  "OpenRouterAgent_request self observation =
     (case keyword_clash (OpenRouterAgent.kwargs self) of
        Some k \<Rightarrow> Inl k
      | None \<Rightarrow>
          Inr (ChatCompletionsCreate (OpenRouterAgent.client self) (OpenRouterAgent.model_name self)
                 [(''system'', opt_val (OpenRouterAgent.system_prompt self)), (''user'', PyStr observation)]
                 ([(''n'', PyInt 1), (''stop'', PyNone)] @ OpenRouterAgent.kwargs self)))"

definition OpenRouterAgent_make_request :: "OpenRouterAgent \<Rightarrow> string \<Rightarrow> string io" where
  "OpenRouterAgent_make_request self observation w =
     (case OpenRouterAgent_request self observation of
        Inl k \<Rightarrow> (Inl (multiple_values (create_str w) k), w)
      | Inr req \<Rightarrow>
          (case invoke req w of
             (Inl e, w1) \<Rightarrow> (Inl e, w1)
           | (Inr response, w1) \<Rightarrow> (first_text_strip response, w1)))"

definition OpenRouterAgent_retry_request ::
  "OpenRouterAgent \<Rightarrow> string \<Rightarrow> int \<Rightarrow> int \<Rightarrow> string io" where
  "OpenRouterAgent_retry_request self observation retries delay =
     retry_attempts (OpenRouterAgent_make_request self) (OpenRouterAgent.verbose self)
       observation retries delay [1..retries] None"

definition not_a_string :: "pyval \<Rightarrow> exn" where
  "not_a_string observation =
     Exn ValueError (''Observation must be a string. Received type: <class ''
                       @ [CHR 0x27] @ type_name observation @ [CHR 0x27] @ ''>'')"

definition OpenRouterAgent_call :: "OpenRouterAgent \<Rightarrow> pyval \<Rightarrow> string io" where
  "OpenRouterAgent_call self observation w =
     (case observation of
        PyStr s \<Rightarrow> OpenRouterAgent_retry_request self s 3 5 w
      | _ \<Rightarrow> (Inl (not_a_string observation), w))"

subsection \<open>GeminiAgent\<close>

definition GeminiAgent_request :: "GeminiAgent \<Rightarrow> string \<Rightarrow> request" where
  "GeminiAgent_request self observation =
     GenerateContent (GeminiAgent.model self)
       (''Instructions: '' @ opt_str (GeminiAgent.system_prompt self) @ ''\<newline>\<newline>'' @ observation)"

text \<open>\<^verbatim>\<open>response.text\<close>: what the library's accessor does for this response.\<close>

fun text_accessor :: "response \<Rightarrow> exn + string" where
  "text_accessor (Response fs t) = t"

definition GeminiAgent_make_request :: "GeminiAgent \<Rightarrow> string \<Rightarrow> string io" where
  "GeminiAgent_make_request self observation w =
     (case invoke (GeminiAgent_request self observation) w of
        (Inl e, w1) \<Rightarrow> (Inl e, w1)
      | (Inr response, w1) \<Rightarrow>
          (case text_accessor response of
             Inl e \<Rightarrow> (Inl e, w1)
           | Inr text \<Rightarrow>
               (Inr (strip text),
                if GeminiAgent.verbose self
                then py_print (''\<newline>Observation: '' @ observation @ ''\<newline>Response: '' @ text) w1
                else w1)))"

definition GeminiAgent_retry_request ::
  "GeminiAgent \<Rightarrow> string \<Rightarrow> int \<Rightarrow> int \<Rightarrow> string io" where
  "GeminiAgent_retry_request self observation retries delay =
     retry_attempts (GeminiAgent_make_request self) False
       observation retries delay [1..retries] None"

definition GeminiAgent_call :: "GeminiAgent \<Rightarrow> pyval \<Rightarrow> string io" where
  "GeminiAgent_call self observation w =
     (case observation of
        PyStr s \<Rightarrow> GeminiAgent_retry_request self s 3 5 w
      | _ \<Rightarrow> (Inl (not_a_string observation), w))"

subsection \<open>OpenAIAgent\<close>

text \<open>
  The arguments of the call: the keyword that is given twice, or else the request.
\<close>

definition OpenAIAgent_request :: "OpenAIAgent \<Rightarrow> string \<Rightarrow> string + request" where
  "OpenAIAgent_request self observation =
     (case keyword_clash (OpenAIAgent.kwargs self) of
        Some k \<Rightarrow> Inl k
      | None \<Rightarrow>
          Inr (ChatCompletionsCreate (OpenAIAgent.client self) (OpenAIAgent.model_name self)
                 [(''system'', opt_val (OpenAIAgent.system_prompt self)), (''user'', PyStr observation)]
                 ([(''n'', PyInt 1), (''stop'', PyNone)] @ OpenAIAgent.kwargs self)))"

definition OpenAIAgent_make_request :: "OpenAIAgent \<Rightarrow> string \<Rightarrow> string io" where
  "OpenAIAgent_make_request self observation w =
     (case OpenAIAgent_request self observation of
        Inl k \<Rightarrow> (Inl (multiple_values (create_str w) k), w)
      | Inr req \<Rightarrow>
          (case invoke req w of
             (Inl e, w1) \<Rightarrow> (Inl e, w1)
           | (Inr completion, w1) \<Rightarrow> (first_text_strip completion, w1)))"

definition OpenAIAgent_retry_request ::
  "OpenAIAgent \<Rightarrow> string \<Rightarrow> int \<Rightarrow> int \<Rightarrow> string io" where
  "OpenAIAgent_retry_request self observation retries delay =
     retry_attempts (OpenAIAgent_make_request self) (OpenAIAgent.verbose self)
       observation retries delay [1..retries] None"

definition OpenAIAgent_call :: "OpenAIAgent \<Rightarrow> pyval \<Rightarrow> string io" where
  "OpenAIAgent_call self observation w =
     (case observation of
        PyStr s \<Rightarrow> OpenAIAgent_retry_request self s 3 5 w
      | _ \<Rightarrow> (Inl (not_a_string observation), w))"

subsection \<open>HFLocalAgent\<close>

text \<open>
  The whole body is inside \<^verbatim>\<open>try\<close>; \<^verbatim>\<open>self.system_prompt+"\n"+observation\<close> raises a
  \<^verbatim>\<open>TypeError\<close> when the observation is not a string, before the pipeline is called.
\<close>

definition error_occurred :: "exn \<Rightarrow> string" where
  "error_occurred e = ''An error occurred: '' @ exc_str e"

definition HFLocalAgent_call :: "HFLocalAgent \<Rightarrow> pyval \<Rightarrow> string io" where
  "HFLocalAgent_call self observation w =
     (case observation of
        PyStr s \<Rightarrow>
          (case invoke (TextGeneration (HFLocalAgent.pipeline self)
                          (HFLocalAgent.system_prompt self @ ''\<newline>'' @ s)) w of
             (Inl e, w1) \<Rightarrow> (Inr (error_occurred e), w1)
           | (Inr response, w1) \<Rightarrow>
               (case first_text_strip response of
                  Inl e \<Rightarrow> (Inr (error_occurred e), w1)
                | Inr action \<Rightarrow> (Inr action, w1)))
      | _ \<Rightarrow>
          (Inr (error_occurred
                  (Exn TypeError (''can only concatenate str (not '' @ [CHR 0x22]
                                    @ type_name observation @ [CHR 0x22] @ '') to str''))), w))"

subsection \<open>CerebrasAgent\<close>

definition CerebrasAgent_request :: "CerebrasAgent \<Rightarrow> pyval \<Rightarrow> request" where
  "CerebrasAgent_request self observation =
     ChatCompletionsCreate (CerebrasAgent.client self) (CerebrasAgent.model_name self)
       [(''system'', PyStr (CerebrasAgent.system_prompt self)), (''user'', observation)]
       [(''top_p'', PyFloat ''0.9''), (''temperature'', PyFloat ''0.9'')]"

definition CerebrasAgent_call :: "CerebrasAgent \<Rightarrow> pyval \<Rightarrow> string io" where
  "CerebrasAgent_call self observation w =
     (case invoke (CerebrasAgent_request self observation) w of
        (Inl e, w1) \<Rightarrow> (Inr (error_occurred e), w1)
      | (Inr response, w1) \<Rightarrow>
          (case first_text_strip response of
             Inl e \<Rightarrow> (Inr (error_occurred e), w1)
           | Inr action \<Rightarrow> (Inr action, w1)))"

subsection \<open>AWSBedrockAgent\<close>

text \<open>
  \<^verbatim>\<open>{"maxTokens": 512, "temperature": 0.9, "topP": 0.9, **self.kwargs}\<close>: a key of
  \<^verbatim>\<open>kwargs\<close> replaces the value of the same key and a new key comes last.
\<close>

definition AWSBedrockAgent_request :: "AWSBedrockAgent \<Rightarrow> string \<Rightarrow> request" where
  "AWSBedrockAgent_request self observation =
     Converse (AWSBedrockAgent.client self) (AWSBedrockAgent.model_id self) observation
       (AWSBedrockAgent.system_prompt self)
       (fold (\<lambda>(k, v). AList.update k v) (AWSBedrockAgent.kwargs self)
          [(''maxTokens'', PyInt 512), (''temperature'', PyFloat ''0.9''), (''topP'', PyFloat ''0.9'')])"

definition cant_invoke :: "AWSBedrockAgent \<Rightarrow> exn \<Rightarrow> string" where
  "cant_invoke self e =
     ''ERROR: Can't invoke '' @ [CHR 0x27] @ AWSBedrockAgent.model_id self @ [CHR 0x27]
       @ ''. Reason: '' @ exc_str e"

definition AWSBedrockAgent_make_request :: "AWSBedrockAgent \<Rightarrow> string \<Rightarrow> string io" where
  "AWSBedrockAgent_make_request self observation w =
     (case invoke (AWSBedrockAgent_request self observation) w of
        (Inl e, w1) \<Rightarrow> (Inr (cant_invoke self e), w1)
      | (Inr response, w1) \<Rightarrow>
          (case first_text_strip response of
             Inl e \<Rightarrow> (Inr (cant_invoke self e), w1)
           | Inr response_text \<Rightarrow>
               (Inr response_text,
                if AWSBedrockAgent.verbose self
                then py_print (''\<newline>Observation: '' @ observation
                                 @ ''\<newline>Response: '' @ response_text) w1
                else w1)))"

definition AWSBedrockAgent_call :: "AWSBedrockAgent \<Rightarrow> pyval \<Rightarrow> string io" where
  "AWSBedrockAgent_call self observation w =
     (case observation of
        PyStr s \<Rightarrow> AWSBedrockAgent_make_request self s w
      | _ \<Rightarrow> (Inl (not_a_string observation), w))"

subsection \<open>AnthropicAgent\<close>

definition AnthropicAgent_request :: "AnthropicAgent \<Rightarrow> string \<Rightarrow> request" where
  "AnthropicAgent_request self observation =
     MessagesCreate (AnthropicAgent.client self) (AnthropicAgent.model_name self)
       (AnthropicAgent.max_tokens self) (AnthropicAgent.temperature self)
       (AnthropicAgent.system_prompt self) observation"

definition AnthropicAgent_make_request :: "AnthropicAgent \<Rightarrow> string \<Rightarrow> string io" where
  "AnthropicAgent_make_request self observation w =
     (case invoke (AnthropicAgent_request self observation) w of
        (Inl e, w1) \<Rightarrow> (Inl e, w1)
      | (Inr response, w1) \<Rightarrow> (first_text_strip response, w1))"

definition AnthropicAgent_retry_request ::
  "AnthropicAgent \<Rightarrow> string \<Rightarrow> int \<Rightarrow> int \<Rightarrow> string io" where
  "AnthropicAgent_retry_request self observation retries delay =
     retry_attempts (AnthropicAgent_make_request self) (AnthropicAgent.verbose self)
       observation retries delay [1..retries] None"

definition AnthropicAgent_call :: "AnthropicAgent \<Rightarrow> pyval \<Rightarrow> string io" where
  "AnthropicAgent_call self observation w =
     (case observation of
        PyStr s \<Rightarrow> AnthropicAgent_retry_request self s 3 5 w
      | _ \<Rightarrow> (Inl (not_a_string observation), w))"

subsection \<open>Calling an agent\<close>

text \<open>\<open>call\<close> is \<^verbatim>\<open>agent(observation)\<close>: the \<^verbatim>\<open>__call__\<close> of the agent's class.\<close>

fun call :: "agent \<Rightarrow> pyval \<Rightarrow> string io" where
  "call Human = HumanAgent_call"
| "call (OpenRouter self) = OpenRouterAgent_call self"
| "call (Gemini self) = GeminiAgent_call self"
| "call (OpenAI self) = OpenAIAgent_call self"
| "call (HFLocal self) = HFLocalAgent_call self"
| "call (Cerebras self) = CerebrasAgent_call self"
| "call (AWSBedrock self) = AWSBedrockAgent_call self"
| "call (Anthropic self) = AnthropicAgent_call self"

text \<open>
  An agent object is held through a reference into the store; a reference that holds
  \<^verbatim>\<open>None\<close> is not callable.
\<close>

definition call_ref :: "nat \<Rightarrow> pyval \<Rightarrow> string io" where
  "call_ref r observation w =
     (case objects w r of
        None \<Rightarrow> (Inl (Exn TypeError (CHR 0x27 # ''NoneType' object is not callable'')), w)
      | Some a \<Rightarrow> call a observation w)"

fun class_name :: "agent \<Rightarrow> string" where
  "class_name Human = ''HumanAgent''"
| "class_name (OpenRouter self) = ''OpenRouterAgent''"
| "class_name (Gemini self) = ''GeminiAgent''"
| "class_name (OpenAI self) = ''OpenAIAgent''"
| "class_name (HFLocal self) = ''HFLocalAgent''"
| "class_name (Cerebras self) = ''CerebrasAgent''"
| "class_name (AWSBedrock self) = ''AWSBedrockAgent''"
| "class_name (Anthropic self) = ''AnthropicAgent''"

text \<open>The classes that define \<^verbatim>\<open>_retry_request\<close>, and the method of an agent.\<close>

fun has_retry_request :: "agent \<Rightarrow> bool" where
  "has_retry_request (OpenRouter self) = True"
| "has_retry_request (Gemini self) = True"
| "has_retry_request (OpenAI self) = True"
| "has_retry_request (Anthropic self) = True"
| "has_retry_request a = False"

fun retry_request :: "agent \<Rightarrow> string \<Rightarrow> int \<Rightarrow> int \<Rightarrow> string io" where
  "retry_request (OpenRouter self) = OpenRouterAgent_retry_request self"
| "retry_request (Gemini self) = GeminiAgent_retry_request self"
| "retry_request (OpenAI self) = OpenAIAgent_retry_request self"
| "retry_request (Anthropic self) = AnthropicAgent_retry_request self"
| "retry_request a =
     (\<lambda>observation retries delay w.
        (Inl (Exn AttributeError
               ([CHR 0x27] @ class_name a @ [CHR 0x27] @ '' object has no attribute ''
                  @ [CHR 0x27] @ ''_retry_request'' @ [CHR 0x27])),
         w))"


subsection \<open>Constructors\<close>

text \<open>
  \<open>new_handle\<close> is the call of a library's constructor. The constructors of the agents
  return the initialised object.
\<close>

definition new_handle :: "handle \<Rightarrow> handle io" where
  "new_handle h w =
     (case sdk_init w h of
        Some e \<Rightarrow> (Inl e, emit (New h) w)
      | None \<Rightarrow> (Inr h, emit (New h) w))"

text \<open>
  \<^verbatim>\<open>os.getenv(name)\<close> followed by \<^verbatim>\<open>if not api_key: raise ValueError(message)\<close>.
\<close>

definition getenv_key :: "string \<Rightarrow> string \<Rightarrow> world \<Rightarrow> exn + string" where
  "getenv_key name message w =
     (case environ w name of
        None \<Rightarrow> Inl (Exn ValueError message)
      | Some api_key \<Rightarrow> if api_key = [] then Inl (Exn ValueError message) else Inr api_key)"

definition OpenRouterAgent_init ::
  "string \<Rightarrow> string option \<Rightarrow> bool \<Rightarrow> (string \<times> pyval) list \<Rightarrow> OpenRouterAgent io" where
  "OpenRouterAgent_init model_name' system_prompt' verbose' kwargs' w =
     (if \<not> (importable w ''openai'' \<and> importable w ''openai._exceptions'')
      then (Inl (Exn ImportError ''OpenAI package is required for OpenRouterAgent. Install it with: pip install openai''), w)
      else case getenv_key ''OPENROUTER_API_KEY''
                  ''OpenRouter API key not found. Please set the OPENROUTER_API_KEY environment variable.'' w of
        Inl e \<Rightarrow> (Inl e, w)
      | Inr api_key \<Rightarrow>
          (case new_handle (OpenAI_client (Some ''https://openrouter.ai/api/v1'') api_key) w of
             (Inl e, w1) \<Rightarrow> (Inl e, w1)
           | (Inr c, w1) \<Rightarrow>
               (Inr \<lparr>OpenRouterAgent.model_name = model_name', verbose = verbose',
                     system_prompt = system_prompt', kwargs = kwargs', client = c\<rparr>, w1)))"

definition default_generation_config :: "(string \<times> pyval) list" where
  "default_generation_config =
     [(''temperature'', PyInt 1), (''top_p'', PyFloat ''0.95''), (''top_k'', PyInt 40),
      (''max_output_tokens'', PyInt 8192), (''response_mime_type'', PyStr ''text/plain'')]"

definition GeminiAgent_init ::
  "string \<Rightarrow> string option \<Rightarrow> bool \<Rightarrow> (string \<times> pyval) list option \<Rightarrow> GeminiAgent io" where
  "GeminiAgent_init model_name' system_prompt' verbose' generation_config' w =
     (if \<not> importable w ''google.generativeai''
      then (Inl (Exn ImportError ''Google Generative AI package is required for GeminiAgent. Install it with: pip install google-generativeai''), w)
      else case getenv_key ''GEMINI_API_KEY''
                  ''Gemini API key not found. Please set the GEMINI_API_KEY environment variable.'' w of
        Inl e \<Rightarrow> (Inl e, w)
      | Inr api_key \<Rightarrow>
          (let w1 = emit (Configure api_key) w;
               config = (case generation_config' of None \<Rightarrow> default_generation_config | Some g \<Rightarrow> g)
           in case new_handle (GenerativeModel model_name' config) w1 of
                (Inl e, w2) \<Rightarrow> (Inl e, w2)
              | (Inr m, w2) \<Rightarrow>
                  (Inr \<lparr>GeminiAgent.model_name = model_name', system_prompt = system_prompt',
                        verbose = verbose', generation_config = config, model = m\<rparr>, w2)))"

definition OpenAIAgent_init ::
  "string \<Rightarrow> string option \<Rightarrow> bool \<Rightarrow> string option \<Rightarrow> string option
     \<Rightarrow> (string \<times> pyval) list \<Rightarrow> OpenAIAgent io" where
  "OpenAIAgent_init model_name' system_prompt' verbose' api_key base_url kwargs' w =
     (if \<not> importable w ''openai''
      then (Inl (Exn ImportError ''OpenAI package is required for OpenAIAgent. Install it with: pip install openai''), w)
      else case (case api_key of
                   None \<Rightarrow> getenv_key ''OPENAI_API_KEY''
                             ''OpenAI API key not found. Please set the OPENAI_API_KEY environment variable.'' w
                 | Some k \<Rightarrow> Inr k) of
        Inl e \<Rightarrow> (Inl e, w)
      | Inr api_key' \<Rightarrow>
          (case new_handle (OpenAI_client base_url api_key') w of
             (Inl e, w1) \<Rightarrow> (Inl e, w1)
           | (Inr c, w1) \<Rightarrow>
               (Inr \<lparr>OpenAIAgent.model_name = model_name', system_prompt = system_prompt',
                     verbose = verbose', kwargs = kwargs', client = c\<rparr>, w1)))"

definition CerebrasAgent_init :: "string \<Rightarrow> string option \<Rightarrow> CerebrasAgent io" where
  "CerebrasAgent_init model_name' system_prompt' w =
     (if \<not> importable w ''cerebras.cloud.sdk''
      then (Inl (Exn ImportError ''Cerebras SDK is required for CerebrasAgent. Install it with: pip install cerebras-cloud-sdk''), w)
      else case new_handle (Cerebras_client (environ w ''CEREBRAS_API_KEY'')) w of
             (Inl e, w1) \<Rightarrow> (Inl e, w1)
           | (Inr c, w1) \<Rightarrow>
               (Inr \<lparr>CerebrasAgent.model_name = model_name', client = c,
                     system_prompt = (case system_prompt' of
                        None \<Rightarrow> ''You are a competitive game player. Make sure you read the game instructions carefully, and always follow the required format.''
                      | Some p \<Rightarrow> p)\<rparr>, w1))"

definition AWSBedrockAgent_init ::
  "string \<Rightarrow> string \<Rightarrow> string option \<Rightarrow> bool \<Rightarrow> (string \<times> pyval) list \<Rightarrow> AWSBedrockAgent io" where
  "AWSBedrockAgent_init model_id' region_name' system_prompt' verbose' kwargs' w =
     (if \<not> (importable w ''boto3'' \<and> importable w ''botocore.exceptions'')
      then (Inl (Exn ImportError ''Boto3 is required for AWSBedrockAgent. Install it with: pip install boto3''), w)
      else case new_handle (Bedrock_client region_name') w of
             (Inl e, w1) \<Rightarrow> (Inl e, w1)
           | (Inr c, w1) \<Rightarrow>
               (Inr \<lparr>model_id = model_id', region_name = region_name', system_prompt = system_prompt',
                     verbose = verbose', kwargs = kwargs', client = c\<rparr>, w1))"

definition AnthropicAgent_init ::
  "string \<Rightarrow> string option \<Rightarrow> int \<Rightarrow> pyval \<Rightarrow> bool \<Rightarrow> AnthropicAgent io" where
  "AnthropicAgent_init model_name' system_prompt' max_tokens' temperature' verbose' w =
     (if \<not> importable w ''anthropic''
      then (Inl (Exn ImportError ''Anthropic package is required for AnthropicAgent. Install it with: pip install anthropic''), w)
      else case new_handle Anthropic_client w of
             (Inl e, w1) \<Rightarrow> (Inl e, w1)
           | (Inr c, w1) \<Rightarrow>
               (Inr \<lparr>AnthropicAgent.model_name = model_name', system_prompt = system_prompt',
                     max_tokens = max_tokens', temperature = temperature', verbose = verbose',
                     client = c\<rparr>, w1))"

subsection \<open>Vocabulary of the properties\<close>

text \<open>
  The outbound call one attempt of an agent makes for an observation, and how the agent
  reads the generated text from the response. There is none for HumanAgent, which calls
  no backend; for an observation that is not a string, where a class rejects it or fails
  before the call; and for \<^verbatim>\<open>kwargs\<close> that repeat a keyword of the call.
\<close>

definition text_strip :: "response \<Rightarrow> exn + string" where
  "text_strip r = (case text_accessor r of Inl e \<Rightarrow> Inl e | Inr text \<Rightarrow> Inr (strip text))"







text \<open>What an attempt yields, given what the provider does: the error or the text read.\<close>

definition attempt_result :: "(response \<Rightarrow> exn + string) \<Rightarrow> outcome \<Rightarrow> exn + string" where
  "attempt_result rd out = (case out of Raises e \<Rightarrow> Inl e | Returns r \<Rightarrow> rd r)"


fun requests :: "event list \<Rightarrow> request list" where
  "requests [] = []"
| "requests (Call r # es) = r # requests es"
| "requests (e # es) = requests es"

fun sleeps :: "event list \<Rightarrow> int list" where
  "sleeps [] = []"
| "sleeps (Sleep d # es) = d # sleeps es"
| "sleeps (e # es) = sleeps es"

text \<open>The events other than prints, and the events a computation added to the log.\<close>

definition effects :: "event list \<Rightarrow> event list" where
  "effects es = filter (\<lambda>e. \<not> is_Print e) es"

definition new_events :: "world \<Rightarrow> world \<Rightarrow> event list" where
  "new_events w w' = drop (length (events w)) (events w')"


definition trimmed :: "string \<Rightarrow> bool" where
  "trimmed s = (s = [] \<or> (\<not> isspace (hd s) \<and> \<not> isspace (last s)))"

text \<open>
  A request method that makes one call of the provider, yields what \<open>res\<close> makes of the
  outcome, and besides the call only prints.
\<close>

definition single_call ::
  "(string \<Rightarrow> string io) \<Rightarrow> string \<Rightarrow> request \<Rightarrow> (outcome \<Rightarrow> exn + string) \<Rightarrow> bool" where
  "single_call mk obs req res \<longleftrightarrow>
     (\<forall>w. \<exists>ps. mk obs w = (res (provider w (invocations w) req),
                            w\<lparr>events := events w @ Call req # map Print ps\<rparr>))"

subsection \<open>Example agents and worlds\<close>

text \<open>
  A world with every package installed, an empty environment, the default limit of
  digits, a terminal with no input and an empty log, whose provider answers the \<open>n\<close>-th call by
  \<open>script n\<close>.
\<close>

definition stub_world :: "(nat \<Rightarrow> outcome) \<Rightarrow> world" where
  "stub_world script =
     \<lparr>provider = (\<lambda>n req. script n), sdk_init = (\<lambda>h. None), importable = (\<lambda>m. True),
      environ = (\<lambda>v. None), int_max_str_digits = 4300,
      create_str = ''openai.resources.chat.completions.Completions.create()'',
      stdin_tty = True, stdin = [], objects = (\<lambda>r. None), events = []\<rparr>"


definition always_rate_limited :: "nat \<Rightarrow> outcome" where
  "always_rate_limited n = Raises (Exn ProviderError ''rate limited'')"


definition always_e4 :: "nat \<Rightarrow> outcome" where
  "always_e4 n = Returns (Response [Some ''move e4 ''] (Inr ''move e4 ''))"





definition anthropic0 :: AnthropicAgent where
  "anthropic0 =
     \<lparr>AnthropicAgent.model_name = ''claude-3-5-sonnet-20241022'',
      system_prompt = Some STANDARD_GAME_PROMPT, max_tokens = 1000,
      temperature = PyFloat ''0.9'', verbose = False, client = Anthropic_client\<rparr>"


definition bedrock0 :: AWSBedrockAgent where
  "bedrock0 =
     \<lparr>model_id = ''anthropic.claude-3-haiku-20240307-v1:0'', region_name = ''us-east-1'',
      system_prompt = Some STANDARD_GAME_PROMPT, verbose = False, kwargs = [],
      client = Bedrock_client ''us-east-1''\<rparr>"

definition hflocal0 :: HFLocalAgent where
  "hflocal0 =
     \<lparr>tokenizer = AutoTokenizer ''gpt2'', model = AutoModelForCausalLM ''gpt2'' False ''auto'' [],
      system_prompt = STANDARD_GAME_PROMPT,
      pipeline = HF_pipeline 1024 (AutoModelForCausalLM ''gpt2'' False ''auto'' [])
                   (AutoTokenizer ''gpt2'')\<rparr>"

section \<open>Properties\<close>

subsection \<open>Events\<close>

lemma effects_simps [simp]:
  "effects [] = []"
  "effects (Call r # es) = Call r # effects es"
  "effects (Sleep d # es) = Sleep d # effects es"
  "effects (Print s # es) = effects es"
  "effects (xs @ ys) = effects xs @ effects ys"
  "effects (map Print ps) = []"
  by (simp_all add: effects_def)

lemma requests_append [simp]: "requests (xs @ ys) = requests xs @ requests ys"
  by (induction xs rule: requests.induct) simp_all

lemma sleeps_append [simp]: "sleeps (xs @ ys) = sleeps xs @ sleeps ys"
  by (induction xs rule: sleeps.induct) simp_all

lemma requests_effects [simp]: "requests (effects es) = requests es"
  by (induction es rule: requests.induct) (simp_all add: effects_def)

lemma sleeps_effects [simp]: "sleeps (effects es) = sleeps es"
  by (induction es rule: sleeps.induct) (simp_all add: effects_def)

lemma filter_is_Call_Print [simp]: "filter is_Call (map Print ps) = []"
  by (induction ps) simp_all


lemma new_events_append [simp]: "new_events w (w\<lparr>events := events w @ es\<rparr>) = es"
  by (simp add: new_events_def)






subsection \<open>Integers in f-strings\<close>




subsection \<open>Sleeping\<close>

lemma five_le_sleep_max [simp]: "5 \<le> sleep_max"
  by (simp add: sleep_max_def)

lemma time_sleep_ok:
  "0 \<le> d \<and> d \<le> sleep_max \<Longrightarrow> time_sleep d w = (Inr (), emit (Sleep d) w)"
  by (simp add: time_sleep_def sleep_max_def)

lemma time_sleep_fail:
  assumes "\<not> (0 \<le> d \<and> d \<le> sleep_max)"
  shows "\<exists>e. \<forall>w. time_sleep d w = (Inl e, w)"
proof (cases "d < - sleep_max \<or> sleep_max < d")
  case True
  hence "\<forall>w. time_sleep d w
           = (Inl (Exn OverflowError ''timestamp too large to convert to C _PyTime_t''), w)"
    by (simp add: time_sleep_def)
  thus ?thesis by (rule exI)
next
  case False
  with assms have "d < 0" by simp
  with False have "\<forall>w. time_sleep d w
           = (Inl (Exn ValueError ''sleep length must be non-negative''), w)"
    by (simp add: time_sleep_def)
  thus ?thesis by (rule exI)
qed

subsection \<open>The request methods make one call\<close>

lemma OpenRouterAgent_single_call:
  assumes "OpenRouterAgent_request self obs = Inr req"
  shows "single_call (OpenRouterAgent_make_request self) obs req (attempt_result first_text_strip)"
proof -
  have "OpenRouterAgent_make_request self obs w
        = (attempt_result first_text_strip (provider w (invocations w) req),
           w\<lparr>events := events w @ Call req # map Print []\<rparr>)" for w
    using assms
    by (simp add: OpenRouterAgent_make_request_def invoke_def attempt_result_def emit_def
             split: outcome.splits)
  thus ?thesis unfolding single_call_def by blast
qed

lemma OpenAIAgent_single_call:
  assumes "OpenAIAgent_request self obs = Inr req"
  shows "single_call (OpenAIAgent_make_request self) obs req (attempt_result first_text_strip)"
proof -
  have "OpenAIAgent_make_request self obs w
        = (attempt_result first_text_strip (provider w (invocations w) req),
           w\<lparr>events := events w @ Call req # map Print []\<rparr>)" for w
    using assms
    by (simp add: OpenAIAgent_make_request_def invoke_def attempt_result_def emit_def
             split: outcome.splits)
  thus ?thesis unfolding single_call_def by blast
qed

lemma AnthropicAgent_single_call:
  "single_call (AnthropicAgent_make_request self) obs (AnthropicAgent_request self obs)
     (attempt_result first_text_strip)"
  unfolding single_call_def
proof
  fix w
  have "AnthropicAgent_make_request self obs w
        = (attempt_result first_text_strip (provider w (invocations w) (AnthropicAgent_request self obs)),
           w\<lparr>events := events w @ Call (AnthropicAgent_request self obs) # map Print []\<rparr>)"
    by (simp add: AnthropicAgent_make_request_def invoke_def attempt_result_def emit_def
             split: outcome.splits)
  thus "\<exists>ps. AnthropicAgent_make_request self obs w
        = (attempt_result first_text_strip (provider w (invocations w) (AnthropicAgent_request self obs)),
           w\<lparr>events := events w @ Call (AnthropicAgent_request self obs) # map Print ps\<rparr>)"
    by (rule exI)
qed

lemma GeminiAgent_single_call:
  "single_call (GeminiAgent_make_request self) obs (GeminiAgent_request self obs)
     (attempt_result text_strip)"
  unfolding single_call_def
proof
  fix w
  let ?req = "GeminiAgent_request self obs"
  let ?out = "provider w (invocations w) ?req"
  let ?ps = "case ?out of
               Raises e \<Rightarrow> []
             | Returns r \<Rightarrow>
                 (case text_accessor r of
                    Inl e \<Rightarrow> []
                  | Inr text \<Rightarrow>
                      if GeminiAgent.verbose self
                      then [''\<newline>Observation: '' @ obs @ ''\<newline>Response: '' @ text] else [])"
  have "GeminiAgent_make_request self obs w
        = (attempt_result text_strip ?out, w\<lparr>events := events w @ Call ?req # map Print ?ps\<rparr>)"
    by (simp add: GeminiAgent_make_request_def invoke_def attempt_result_def text_strip_def
                  emit_def py_print_def split: outcome.splits sum.splits)
  thus "\<exists>ps. GeminiAgent_make_request self obs w
        = (attempt_result text_strip ?out, w\<lparr>events := events w @ Call ?req # map Print ps\<rparr>)"
    by (rule exI)
qed

subsection \<open>Runs of the retry loop\<close>












lemma retry_attempts_none:
  "N < 1 \<Longrightarrow> retry_attempts mk prints obs N delay [1..N] None w
     = (Inl (Exn TypeError ''exceptions must derive from BaseException''), w)"
  by simp


lemma call_retry_request:
  "has_retry_request a \<Longrightarrow> call a (PyStr obs) w = retry_request a obs 3 5 w"
  by (cases a)
     (simp_all add: OpenRouterAgent_call_def GeminiAgent_call_def OpenAIAgent_call_def
        AnthropicAgent_call_def)

subsection \<open>The retry policy\<close>








subsection \<open>What a call changes\<close>

lemma frame_refl: "\<exists>es. w = w\<lparr>events := events w @ es\<rparr>"
  by (rule exI[of _ "[]"]) simp

lemma retry_attempts_frame:
  assumes mk: "\<And>w. \<exists>es. snd (mk obs w) = w\<lparr>events := events w @ es\<rparr>"
  shows "\<exists>es. snd (retry_attempts mk prints obs N delay atts lexc w) = w\<lparr>events := events w @ es\<rparr>"
proof (induction atts arbitrary: lexc w)
  case Nil
  have "snd (retry_attempts mk prints obs N delay [] lexc w) = w\<lparr>events := events w @ []\<rparr>"
    by (simp split: option.splits)
  thus ?case by (rule exI)
next
  case (Cons attempt rest)
  from mk[of w] obtain es1 where es1: "snd (mk obs w) = w\<lparr>events := events w @ es1\<rparr>" by blast
  obtain x where x: "mk obs w = (x, w\<lparr>events := events w @ es1\<rparr>)"
    using es1 by (cases "mk obs w") simp
  show ?case
  proof (cases x)
    case (Inr response)
    have "snd (retry_attempts mk prints obs N delay (attempt # rest) lexc w)
          = w\<lparr>events := events w @ (es1 @
               (if prints then [Print (''\<newline>Observation: '' @ obs @ ''\<newline>Response: '' @ response)]
                else []))\<rparr>"
      using x Inr by (simp add: py_print_def emit_def)
    thus ?thesis by (rule exI)
  next
    case (Inl e)
    show ?thesis
    proof (cases "int_str (int_max_str_digits w) attempt")
      case bad: (Inl e')
      have "snd (retry_attempts mk prints obs N delay (attempt # rest) lexc w)
            = w\<lparr>events := events w @ es1\<rparr>"
        using x Inl bad by simp
      thus ?thesis by (rule exI)
    next
      case (Inr number)
      let ?p = "Print (''Attempt '' @ number @ '' failed with error: '' @ exc_str e)"
      show ?thesis
      proof (cases "attempt < N \<and> \<not> (0 \<le> delay \<and> delay \<le> sleep_max)")
        case True
        then obtain e2 where "\<And>w'. time_sleep delay w' = (Inl e2, w')"
          using time_sleep_fail[of delay] by blast
        hence "snd (retry_attempts mk prints obs N delay (attempt # rest) lexc w)
              = w\<lparr>events := events w @ (es1 @ [?p])\<rparr>"
          using x Inl Inr True by (simp add: py_print_def emit_def)
        thus ?thesis by (rule exI)
      next
        case False
        let ?es2 = "es1 @ ?p # (if attempt < N then [Sleep delay] else [])"
        let ?w2 = "w\<lparr>events := events w @ ?es2\<rparr>"
        have step: "retry_attempts mk prints obs N delay (attempt # rest) lexc w
                    = retry_attempts mk prints obs N delay rest (Some e) ?w2"
          using x Inl Inr False by (auto simp: py_print_def emit_def time_sleep_ok)
        from Cons.IH[of "Some e" ?w2] obtain es where
          "snd (retry_attempts mk prints obs N delay rest (Some e) ?w2) = ?w2\<lparr>events := events ?w2 @ es\<rparr>"
          by blast
        hence "snd (retry_attempts mk prints obs N delay (attempt # rest) lexc w)
               = w\<lparr>events := events w @ (?es2 @ es)\<rparr>"
          unfolding step by simp
        thus ?thesis by (rule exI)
      qed
    qed
  qed
qed

lemma single_call_frame:
  assumes "single_call mk obs req res"
  shows "\<exists>es. snd (mk obs w) = w\<lparr>events := events w @ es\<rparr>"
proof -
  from assms obtain ps where
    "mk obs w = (res (provider w (invocations w) req), w\<lparr>events := events w @ Call req # map Print ps\<rparr>)"
    unfolding single_call_def by blast
  hence "snd (mk obs w) = w\<lparr>events := events w @ (Call req # map Print ps)\<rparr>" by simp
  thus ?thesis by (rule exI)
qed

lemma make_request_frame:
  "\<exists>es. snd (OpenRouterAgent_make_request r obs w) = w\<lparr>events := events w @ es\<rparr>"
  "\<exists>es. snd (GeminiAgent_make_request g obs w) = w\<lparr>events := events w @ es\<rparr>"
  "\<exists>es. snd (OpenAIAgent_make_request p obs w) = w\<lparr>events := events w @ es\<rparr>"
  "\<exists>es. snd (AnthropicAgent_make_request c obs w) = w\<lparr>events := events w @ es\<rparr>"
proof -
  show "\<exists>es. snd (OpenRouterAgent_make_request r obs w) = w\<lparr>events := events w @ es\<rparr>"
  proof (cases "OpenRouterAgent_request r obs")
    case (Inr req)
    thus ?thesis by (rule single_call_frame[OF OpenRouterAgent_single_call])
  next
    case (Inl k)
    thus ?thesis by (simp add: OpenRouterAgent_make_request_def frame_refl)
  qed
  show "\<exists>es. snd (OpenAIAgent_make_request p obs w) = w\<lparr>events := events w @ es\<rparr>"
  proof (cases "OpenAIAgent_request p obs")
    case (Inr req)
    thus ?thesis by (rule single_call_frame[OF OpenAIAgent_single_call])
  next
    case (Inl k)
    thus ?thesis by (simp add: OpenAIAgent_make_request_def frame_refl)
  qed
  show "\<exists>es. snd (GeminiAgent_make_request g obs w) = w\<lparr>events := events w @ es\<rparr>"
    by (rule single_call_frame[OF GeminiAgent_single_call])
  show "\<exists>es. snd (AnthropicAgent_make_request c obs w) = w\<lparr>events := events w @ es\<rparr>"
    by (rule single_call_frame[OF AnthropicAgent_single_call])
qed

lemma retry_request_frame:
  "\<exists>es. snd (retry_request a obs N delay w) = w\<lparr>events := events w @ es\<rparr>"
proof (cases a)
  case (OpenRouter self)
  show ?thesis unfolding OpenRouter retry_request.simps OpenRouterAgent_retry_request_def
    by (rule retry_attempts_frame) (rule make_request_frame)
next
  case (Gemini self)
  show ?thesis unfolding Gemini retry_request.simps GeminiAgent_retry_request_def
    by (rule retry_attempts_frame) (rule make_request_frame)
next
  case (OpenAI self)
  show ?thesis unfolding OpenAI retry_request.simps OpenAIAgent_retry_request_def
    by (rule retry_attempts_frame) (rule make_request_frame)
next
  case (Anthropic self)
  show ?thesis unfolding Anthropic retry_request.simps AnthropicAgent_retry_request_def
    by (rule retry_attempts_frame) (rule make_request_frame)
qed (simp_all add: frame_refl)

lemma one_attempt_frame:
  "\<exists>es. snd (HFLocalAgent_call h obs w) = w\<lparr>events := events w @ es\<rparr>"
  "\<exists>es. snd (CerebrasAgent_call c obs w) = w\<lparr>events := events w @ es\<rparr>"
  "\<exists>es. snd (AWSBedrockAgent_call b obs w) = w\<lparr>events := events w @ es\<rparr>"
proof -
  show "\<exists>es. snd (HFLocalAgent_call h obs w) = w\<lparr>events := events w @ es\<rparr>"
    by (cases obs)
       (auto simp: HFLocalAgent_call_def invoke_def emit_def frame_refl
             split: outcome.splits sum.splits)
  show "\<exists>es. snd (CerebrasAgent_call c obs w) = w\<lparr>events := events w @ es\<rparr>"
    by (auto simp: CerebrasAgent_call_def invoke_def emit_def split: outcome.splits sum.splits)
  show "\<exists>es. snd (AWSBedrockAgent_call b obs w) = w\<lparr>events := events w @ es\<rparr>"
    by (cases obs)
       (auto simp: AWSBedrockAgent_call_def AWSBedrockAgent_make_request_def invoke_def emit_def
          py_print_def frame_refl split: outcome.splits sum.splits)
qed

lemma call_frame:
  assumes "a \<noteq> Human"
  shows "\<exists>es. snd (call a obs w) = w\<lparr>events := events w @ es\<rparr>"
proof (cases "has_retry_request a")
  case True
  show ?thesis
  proof (cases "isinstance_str obs")
    case str: True
    then obtain s where "obs = PyStr s" by (cases obs) simp_all
    thus ?thesis using retry_request_frame[of a s 3 5 w] call_retry_request[OF True, of s w]
      by simp
  next
    case False
    hence "snd (call a obs w) = w"
      using True
      by (cases a; cases obs)
         (simp_all add: OpenRouterAgent_call_def GeminiAgent_call_def
            OpenAIAgent_call_def AnthropicAgent_call_def)
    thus ?thesis by (simp add: frame_refl)
  qed
next
  case False
  with assms show ?thesis
    by (cases a) (simp_all add: one_attempt_frame)
qed

lemma HumanAgent_call_objects: "objects (snd (HumanAgent_call obs w)) = objects w"
  by (simp add: HumanAgent_call_def py_input_def py_print_def emit_def Let_def
           split: list.splits sum.splits)

lemma call_objects: "objects (snd (call a obs w)) = objects w"
proof (cases "a = Human")
  case True
  thus ?thesis by (simp add: HumanAgent_call_objects)
next
  case False
  from call_frame[OF False, of obs w] obtain es where
    "snd (call a obs w) = w\<lparr>events := events w @ es\<rparr>" by blast
  thus ?thesis by simp
qed

subsection \<open>The observation's type\<close>




subsection \<open>HumanAgent\<close>



subsection \<open>HFLocalAgent\<close>

text \<open>
  C10. A call of HFLocalAgent never raises, whatever the observation. With a string
  observation it calls the pipeline once; when that attempt fails with \<open>e\<close> (the pipeline
  raises, or the text cannot be read from the response), it returns
  \<^verbatim>\<open>An error occurred: \<close> followed by the text of \<open>e\<close>, without a second call and without
  a sleep. An observation that is not a string is not rejected with the \<^verbatim>\<open>ValueError\<close>
  of the checking classes: the \<^verbatim>\<open>TypeError\<close> of the concatenation is turned into the
  returned string as any other failure is.
\<close>

theorem hflocal_returns_error_string:
  "(\<exists>action. fst (call (HFLocal self) obs w) = Inr action)
   \<and> (attempt_result first_text_strip
         (provider w (invocations w)
            (TextGeneration (HFLocalAgent.pipeline self)
               (HFLocalAgent.system_prompt self @ ''\<newline>'' @ s))) = Inl e
        \<longrightarrow> call (HFLocal self) (PyStr s) w
            = (Inr (''An error occurred: '' @ exc_str e),
               w\<lparr>events := events w @
                   [Call (TextGeneration (HFLocalAgent.pipeline self)
                            (HFLocalAgent.system_prompt self @ ''\<newline>'' @ s))]\<rparr>))
   \<and> (\<not> isinstance_str obs
        \<longrightarrow> call (HFLocal self) obs w
            = (Inr (''An error occurred: can only concatenate str (not '' @ [CHR 0x22]
                      @ type_name obs @ [CHR 0x22] @ '') to str''), w))"
proof (intro conjI impI)
  show "\<exists>action. fst (call (HFLocal self) obs w) = Inr action"
    by (cases obs)
       (auto simp: HFLocalAgent_call_def invoke_def split: outcome.splits sum.splits)
next
  assume "attempt_result first_text_strip
         (provider w (invocations w)
            (TextGeneration (HFLocalAgent.pipeline self)
               (HFLocalAgent.system_prompt self @ ''\<newline>'' @ s))) = Inl e"
  thus "call (HFLocal self) (PyStr s) w
            = (Inr (''An error occurred: '' @ exc_str e),
               w\<lparr>events := events w @
                   [Call (TextGeneration (HFLocalAgent.pipeline self)
                            (HFLocalAgent.system_prompt self @ ''\<newline>'' @ s))]\<rparr>)"
    by (auto simp: HFLocalAgent_call_def invoke_def attempt_result_def emit_def error_occurred_def
             split: outcome.splits sum.splits)
next
  assume "\<not> isinstance_str obs"
  thus "call (HFLocal self) obs w
            = (Inr (''An error occurred: can only concatenate str (not '' @ [CHR 0x22]
                      @ type_name obs @ [CHR 0x22] @ '') to str''), w)"
    by (cases obs) (simp_all add: HFLocalAgent_call_def error_occurred_def)
qed

theorem hflocal_returns_error_string_witness:
  "call (HFLocal hflocal0) (PyStr ''board state X'') (stub_world always_rate_limited)
     = (Inr ''An error occurred: rate limited'',
        (stub_world always_rate_limited)
          \<lparr>events := [Call (TextGeneration (HFLocalAgent.pipeline hflocal0)
                              (HFLocalAgent.system_prompt hflocal0 @ ''\<newline>board state X''))]\<rparr>)
   \<and> call (HFLocal hflocal0) PyNone (stub_world always_rate_limited)
     = (Inr (''An error occurred: can only concatenate str (not '' @ [CHR 0x22] @ ''NoneType''
               @ [CHR 0x22] @ '') to str''),
        stub_world always_rate_limited)"
  using hflocal_returns_error_string
    [of hflocal0 "PyStr ''board state X''" "stub_world always_rate_limited" "''board state X''"
        "Exn ProviderError ''rate limited''"]
    hflocal_returns_error_string
    [of hflocal0 PyNone "stub_world always_rate_limited" "''board state X''"
        "Exn ProviderError ''rate limited''"]
  by (simp add: attempt_result_def stub_world_def always_rate_limited_def)

subsection \<open>The agent objects\<close>

text \<open>
  C9. A call of the agent held by a reference leaves the store of agent objects as it
  was: every field of every agent (model identifier, system prompt, sampling parameters,
  verbosity flag, client handle) is after the call what it was before, so that a second
  call through the same reference is a call of the same agent.
\<close>

theorem call_leaves_configuration:
  assumes "objects w r = Some a"
  shows "objects (snd (call_ref r obs w)) = objects w
       \<and> call_ref r obs' (snd (call_ref r obs w)) = call a obs' (snd (call a obs w))"
proof -
  have 1: "call_ref r obs w = call a obs w" using assms by (simp add: call_ref_def)
  have 2: "objects (snd (call a obs w)) = objects w" by (rule call_objects)
  show ?thesis unfolding 1 using 2 assms by (simp add: call_ref_def)
qed

theorem call_leaves_configuration_witness:
  "objects (snd (call_ref 0 (PyStr ''board state X'')
              ((stub_world always_rate_limited)\<lparr>objects := [0 \<mapsto> Anthropic anthropic0]\<rparr>))) 0
     = Some (Anthropic anthropic0)"
  using call_leaves_configuration
    [of "(stub_world always_rate_limited)\<lparr>objects := [0 \<mapsto> Anthropic anthropic0]\<rparr>" 0
        "Anthropic anthropic0" "PyStr ''board state X''" "PyStr ''board state Y''"]
  by simp

subsection \<open>The classes that turn a failure into the returned string\<close>




subsection \<open>Trimmed actions\<close>

lemma dropWhile_rev_last:
  "dropWhile P (rev xs) \<noteq> [] \<Longrightarrow> \<not> P (last (rev (dropWhile P (rev xs))))"
  by (simp add: last_rev hd_dropWhile)

lemma hd_rev_dropWhile_rev_Cons:
  "\<not> P x \<Longrightarrow> hd (rev (dropWhile P (rev (x # ys)))) = x"
  by (simp add: dropWhile_append)

lemma hd_rev_dropWhile_rev:
  assumes "\<not> P (hd xs)" and "xs \<noteq> []"
  shows "hd (rev (dropWhile P (rev xs))) = hd xs"
proof -
  from assms obtain x ys where xs: "xs = x # ys" and x: "\<not> P x" by (cases xs) auto
  have "hd (rev (dropWhile P (rev (x # ys)))) = x" using x by (rule hd_rev_dropWhile_rev_Cons)
  thus ?thesis unfolding xs by (simp only: list.sel)
qed

lemma trimmed_strip: "trimmed (strip s)"
proof (cases "dropWhile isspace s = []")
  case True
  have "strip s = []" unfolding strip_def True by simp
  thus ?thesis by (simp add: trimmed_def)
next
  case False
  let ?t = "dropWhile isspace s"
  have h: "\<not> isspace (hd ?t)" using False by (rule hd_dropWhile)
  show ?thesis
  proof (cases "dropWhile isspace (rev ?t) = []")
    case True
    have "strip s = []" unfolding strip_def True by simp
    thus ?thesis by (simp add: trimmed_def)
  next
    case ne: False
    have "\<not> isspace (last (strip s))"
      unfolding strip_def using ne by (rule dropWhile_rev_last)
    moreover have "hd (strip s) = hd ?t"
      unfolding strip_def using h False by (rule hd_rev_dropWhile_rev)
    ultimately show ?thesis using h by (simp add: trimmed_def)
  qed
qed

lemma first_text_strip_trimmed: "first_text_strip r = Inr t \<Longrightarrow> trimmed t"
  by (induction r rule: first_text_strip.induct) (auto simp: trimmed_strip)

lemma text_strip_trimmed: "text_strip r = Inr t \<Longrightarrow> trimmed t"
  by (auto simp: text_strip_def trimmed_strip split: sum.splits)














subsection \<open>Construction\<close>

text \<open>
  C5, as it is stated, fails: the constructors of AnthropicAgent and AWSBedrockAgent read
  no environment variable and check no credential; in an empty environment, where the
  library's constructor does not raise, they return the agent.
\<close>

theorem construction_without_key_counterexample:
  "environ (stub_world always_e4) ''ANTHROPIC_API_KEY'' = None
   \<and> AnthropicAgent_init ''claude-3-5-sonnet-20241022'' (Some STANDARD_GAME_PROMPT) 1000
        (PyFloat ''0.9'') False (stub_world always_e4)
     = (Inr anthropic0, (stub_world always_e4)\<lparr>events := [New Anthropic_client]\<rparr>)
   \<and> environ (stub_world always_e4) ''AWS_ACCESS_KEY_ID'' = None
   \<and> AWSBedrockAgent_init ''anthropic.claude-3-haiku-20240307-v1:0'' ''us-east-1''
        (Some STANDARD_GAME_PROMPT) False [] (stub_world always_e4)
     = (Inr bedrock0, (stub_world always_e4)\<lparr>events := [New (Bedrock_client ''us-east-1'')]\<rparr>)"
  by (simp add: AnthropicAgent_init_def AWSBedrockAgent_init_def new_handle_def emit_def
        stub_world_def anthropic0_def bedrock0_def)

text \<open>
  C5, amended. The constructors of OpenRouterAgent, of GeminiAgent and, when no
  \<^verbatim>\<open>api_key\<close> argument is given, of OpenAIAgent fail when the class's key variable
  (\<^verbatim>\<open>OPENROUTER_API_KEY\<close>, \<^verbatim>\<open>GEMINI_API_KEY\<close>, \<^verbatim>\<open>OPENAI_API_KEY\<close>) is absent or
  empty: they raise the \<^verbatim>\<open>ValueError\<close> (the \<^verbatim>\<open>ImportError\<close> when the package is not
  installed), both the specification's ConfigurationError, and leave the world as it was:
  no client is constructed and no call is made.
\<close>

theorem missing_key_fails_construction:
  "(environ w ''OPENROUTER_API_KEY'' \<in> {None, Some []} \<longrightarrow>
      (\<exists>e. OpenRouterAgent_init m sp v kw w = (Inl e, w)
          \<and> exc_cls e = (if importable w ''openai'' \<and> importable w ''openai._exceptions''
                         then ValueError else ImportError)))
   \<and> (environ w ''GEMINI_API_KEY'' \<in> {None, Some []} \<longrightarrow>
      (\<exists>e. GeminiAgent_init m sp v gc w = (Inl e, w)
          \<and> exc_cls e = (if importable w ''google.generativeai'' then ValueError else ImportError)))
   \<and> (environ w ''OPENAI_API_KEY'' \<in> {None, Some []} \<longrightarrow>
      (\<exists>e. OpenAIAgent_init m sp v None bu kw w = (Inl e, w)
          \<and> exc_cls e = (if importable w ''openai'' then ValueError else ImportError)))"
  by (auto simp: OpenRouterAgent_init_def GeminiAgent_init_def OpenAIAgent_init_def
        getenv_key_def)

theorem missing_key_fails_construction_witness:
  "fst (OpenRouterAgent_init ''gpt-4o-mini'' None False [] (stub_world always_e4))
     = Inl (Exn ValueError ''OpenRouter API key not found. Please set the OPENROUTER_API_KEY environment variable.'')
   \<and> snd (OpenRouterAgent_init ''gpt-4o-mini'' None False [] (stub_world always_e4))
     = stub_world always_e4
   \<and> snd (GeminiAgent_init ''gpt-4o-mini'' None False None (stub_world always_e4))
     = stub_world always_e4
   \<and> snd (OpenAIAgent_init ''gpt-4o-mini'' None False None None [] (stub_world always_e4))
     = stub_world always_e4"
proof -
  have env: "environ (stub_world always_e4) ''OPENROUTER_API_KEY'' \<in> {None, Some []}"
    "environ (stub_world always_e4) ''GEMINI_API_KEY'' \<in> {None, Some []}"
    "environ (stub_world always_e4) ''OPENAI_API_KEY'' \<in> {None, Some []}"
    by (simp_all add: stub_world_def)
  from env missing_key_fails_construction
      [where w = "stub_world always_e4" and m = "''gpt-4o-mini''" and sp = None and v = False
         and kw = "[]" and gc = None and bu = None]
  have w: "snd (OpenRouterAgent_init ''gpt-4o-mini'' None False [] (stub_world always_e4))
             = stub_world always_e4"
    "snd (GeminiAgent_init ''gpt-4o-mini'' None False None (stub_world always_e4))
             = stub_world always_e4"
    "snd (OpenAIAgent_init ''gpt-4o-mini'' None False None None [] (stub_world always_e4))
             = stub_world always_e4"
    by auto
  have "fst (OpenRouterAgent_init ''gpt-4o-mini'' None False [] (stub_world always_e4))
     = Inl (Exn ValueError ''OpenRouter API key not found. Please set the OPENROUTER_API_KEY environment variable.'')"
    by (simp add: OpenRouterAgent_init_def getenv_key_def stub_world_def)
  with w show ?thesis by simp
qed

end
